theory Spec2Isabelle
  imports Complex_Main "HOL-Library.Sublist"
begin

section \<open>Raster mask vectorisation: the model\<close>

text \<open>
  A shallow embedding of \<^verbatim>\<open>src/dataviz/tif2vectors2.py\<close>. Python floats are
  modelled by exact rationals: the model follows the arithmetic the source writes down and
  leaves the rounding of binary floating point out.
\<close>

subsection \<open>Confidence threshold (\<^verbatim>\<open>run_processing\<close>, lines 753-754; \<^verbatim>\<open>initial_polygonize_band\<close>, lines 675-677)\<close>



text \<open>
  \<^verbatim>\<open>thresholded_array = (band_array >= threshold_value).astype(np.uint8)\<close>, with
  \<^verbatim>\<open>threshold_value = int(threshold_255)\<close>; the band is the list of its pixel values.
\<close>

definition thresholded_array :: "int \<Rightarrow> int list \<Rightarrow> nat list" where
  "thresholded_array threshold_value band_array =
     map (\<lambda>v. if v \<ge> threshold_value then 1 else 0) band_array"



subsection \<open>Chaikin corner cutting of one ring (\<^verbatim>\<open>_apply_chaikin_to_ring\<close>, lines 284-345)\<close>

type_synonym point2d = "rat \<times> rat"

datatype chaikin_log = Reduced_below_minimum nat

text \<open>The two points emitted for the segment from \<open>p_i\<close> to \<open>p_i_plus_1\<close> (lines 332-337).\<close>

definition chaikin_r :: "point2d \<Rightarrow> point2d \<Rightarrow> point2d" where
  "chaikin_r p_i p_i_plus_1 =
     (3/4 * fst p_i + 1/4 * fst p_i_plus_1, 3/4 * snd p_i + 1/4 * snd p_i_plus_1)"

definition chaikin_q :: "point2d \<Rightarrow> point2d \<Rightarrow> point2d" where
  "chaikin_q p_i p_i_plus_1 =
     (1/4 * fst p_i + 3/4 * fst p_i_plus_1, 1/4 * snd p_i + 3/4 * snd p_i_plus_1)"

text \<open>
  The inner loop \<^verbatim>\<open>for i in range(num_pts - 1)\<close>, appending \<open>r\<close> and then \<open>q\<close> to
  \<^verbatim>\<open>temp_ring_pts\<close> (lines 327-337).
\<close>

definition chaikin_segments :: "point2d list \<Rightarrow> point2d list" where
  "chaikin_segments current_points =
     foldl (\<lambda>temp_ring_pts i.
              (temp_ring_pts @ [chaikin_r (current_points ! i) (current_points ! (i + 1))])
                @ [chaikin_q (current_points ! i) (current_points ! (i + 1))])
           [] [0 ..< length current_points - 1]"

text \<open>\<^verbatim>\<open>temp_ring_pts.append(temp_ring_pts[0])\<close> (line 340), reached with a non-empty list only.\<close>

definition close_ring :: "point2d list \<Rightarrow> point2d list" where
  "close_ring temp_ring_pts = temp_ring_pts @ [temp_ring_pts ! 0]"

text \<open>
  The outer loop \<^verbatim>\<open>for iter_num in range(iterations)\<close> with its two \<^verbatim>\<open>break\<close>s
  (lines 288-343): \<open>iter_num\<close> counts up, the second argument is the number of rounds left. The
  warning of line 292 is returned beside the points.
\<close>

fun chaikin_loop :: "nat \<Rightarrow> nat \<Rightarrow> point2d list \<Rightarrow> point2d list \<times> chaikin_log list" where
  "chaikin_loop iter_num 0 current_points = (current_points, [])"
| "chaikin_loop iter_num (Suc left) current_points =
     (if length current_points < 4 then (current_points, [Reduced_below_minimum iter_num])
      else let temp_ring_pts = chaikin_segments current_points in
        if temp_ring_pts \<noteq> [] then chaikin_loop (Suc iter_num) left (close_ring temp_ring_pts)
        else (current_points, []))"

definition apply_chaikin_to_ring :: "point2d list \<Rightarrow> int \<Rightarrow> point2d list \<times> chaikin_log list" where
  "apply_chaikin_to_ring points iterations =
     (if points = [] \<or> length points < 4 then (points, [])
      else chaikin_loop 0 (nat iterations) points)"

text \<open>The unit square as an explicitly closed ring, and its four corners alone.\<close>

definition unit_square_ring :: "point2d list" where
  "unit_square_ring = [(0, 0), (1, 0), (1, 1), (0, 1), (0, 0)]"

definition unit_square_corners :: "point2d list" where
  "unit_square_corners = [(0, 0), (1, 0), (1, 1), (0, 1)]"

subsection \<open>The geometry engine and the feature layer (OGR), as the source uses them\<close>

text \<open>
  The source works on OGR objects. Their data is modelled by values; what the library
  computes and the source cannot see into (validity, repair, simplification, area, the
  status a driver call ends with) is a parameter of the model, the record \<open>engine\<close>, and
  every theorem holds for every engine unless it says otherwise. Values are immutable, so
  \<^verbatim>\<open>Clone()\<close> is the identity and \<^verbatim>\<open>Destroy()\<close> does nothing. Spatial references
  on geometries take no part in any decision of the source and are left out.
\<close>

datatype py_exception = RuntimeError | MemoryError | OSError

datatype OGRErr = OGRERR_NONE | OGRERR_FAILURE | OGRERR_UNSUPPORTED_GEOMETRY_TYPE

text \<open>
  Lines 25-26, \<^verbatim>\<open>gdal.UseExceptions()\<close> and \<^verbatim>\<open>ogr.UseExceptions()\<close>: a call of the
  bindings that ends with a status other than \<^verbatim>\<open>OGRERR_NONE\<close> raises instead of
  returning the status.
\<close>

definition UseExceptions :: "OGRErr \<Rightarrow> py_exception + OGRErr" where
  "UseExceptions err = (if err = OGRERR_NONE then Inr err else Inl RuntimeError)"

datatype wkb_flat =
  wkbPoint | wkbLineString | wkbPolygon | wkbMultiPoint | wkbMultiLineString
  | wkbMultiPolygon | wkbGeometryCollection | wkbLinearRing

text \<open>A geometry type is a flat type and the 2.5D flag; \<^verbatim>\<open>ogr.GT_Flatten\<close> drops the flag.\<close>

type_synonym wkb_type = "wkb_flat \<times> bool"

definition GT_Flatten :: "wkb_type \<Rightarrow> wkb_flat" where
  "GT_Flatten t = fst t"

text \<open>A point as \<^verbatim>\<open>GetPoints()\<close> returns it: \<open>(x, y)\<close> or \<open>(x, y, z)\<close>.\<close>

type_synonym ogr_point = "rat \<times> rat \<times> rat option"

datatype geometry =
  Geometry (GetGeometryType: wkb_type) (GetPoints: "ogr_point list") (GetGeometries: "geometry list")

text \<open>\<^verbatim>\<open>IsEmpty()\<close>: no point, and no part that is not empty.\<close>

fun IsEmpty :: "geometry \<Rightarrow> bool" where
  "IsEmpty (Geometry t pts parts) \<longleftrightarrow> pts = [] \<and> (\<forall>p \<in> set parts. IsEmpty p)"

text \<open>\<^verbatim>\<open>ogr.Geometry(type)\<close>: a new, empty geometry.\<close>

definition new_Geometry :: "wkb_type \<Rightarrow> geometry" where
  "new_Geometry t = Geometry t [] []"

text \<open>
  \<^verbatim>\<open>container.AddGeometry(part)\<close>: a container takes the parts of its kind (a polygon
  its rings, a multi-polygon polygons, a collection anything) and refuses the others with
  \<^verbatim>\<open>OGRERR_UNSUPPORTED_GEOMETRY_TYPE\<close>, which the bindings raise.
\<close>

definition accepts :: "wkb_flat \<Rightarrow> wkb_flat \<Rightarrow> bool" where
  "accepts container part \<longleftrightarrow>
     container = wkbGeometryCollection
     \<or> (container = wkbMultiPolygon \<and> part = wkbPolygon)
     \<or> (container = wkbPolygon \<and> part = wkbLinearRing)
     \<or> (container = wkbMultiLineString \<and> part = wkbLineString)
     \<or> (container = wkbMultiPoint \<and> part = wkbPoint)"

definition AddGeometry :: "geometry \<Rightarrow> geometry \<Rightarrow> geometry \<times> (py_exception + OGRErr)" where
  "AddGeometry container part =
     (if accepts (GT_Flatten (GetGeometryType container)) (GT_Flatten (GetGeometryType part))
      then (Geometry (GetGeometryType container) (GetPoints container)
              (GetGeometries container @ [part]), UseExceptions OGRERR_NONE)
      else (container, UseExceptions OGRERR_UNSUPPORTED_GEOMETRY_TYPE))"

datatype py_value = PyNone | PyInt int | PyFloat rat | PyStr string

text \<open>A feature: its geometry (\<^verbatim>\<open>GetGeometryRef()\<close>, possibly \<^verbatim>\<open>None\<close>) and its fields.\<close>

record feature =
  GetGeometryRef :: "geometry option"
  field_values :: "(string \<times> py_value) list"

text \<open>\<^verbatim>\<open>feature.GetField(name)\<close>; a field that is not set reads as \<^verbatim>\<open>None\<close>.\<close>

definition GetField :: "feature \<Rightarrow> string \<Rightarrow> py_value" where
  "GetField f name = (case map_of (field_values f) name of Some v \<Rightarrow> v | None \<Rightarrow> PyNone)"

text \<open>\<^verbatim>\<open>ogr.Feature(layer_defn)\<close>: no geometry, every field of the schema unset.\<close>

definition new_Feature :: "string list \<Rightarrow> feature" where
  "new_Feature layer_defn =
     \<lparr>GetGeometryRef = None, field_values = map (\<lambda>name. (name, PyNone)) layer_defn\<rparr>"

definition SetField :: "feature \<Rightarrow> string \<Rightarrow> py_value \<Rightarrow> feature" where
  "SetField f name v =
     f\<lparr>field_values := map (\<lambda>(n, old). if n = name then (n, v) else (n, old)) (field_values f)\<rparr>"

text \<open>\<^verbatim>\<open>layer_defn.GetFieldIndex(name)\<close>: the position of the field, or \<open>-1\<close>.\<close>

fun GetFieldIndex :: "string list \<Rightarrow> string \<Rightarrow> int" where
  "GetFieldIndex [] name = -1"
| "GetFieldIndex (n # ns) name =
     (if n = name then 0
      else let i = GetFieldIndex ns name in if i < 0 then -1 else i + 1)"

text \<open>
  What the library decides. The \<open>_err\<close> fields are the status a driver call ends with,
  before \<open>UseExceptions\<close> turns a failure into an exception.
\<close>

record engine =
  IsValid :: "geometry \<Rightarrow> bool"
  MakeValid :: "geometry \<Rightarrow> py_exception + geometry option"
  SimplifyPreserveTopology :: "geometry \<Rightarrow> rat \<Rightarrow> py_exception + geometry option"
  Area :: "geometry \<Rightarrow> py_exception + rat"
  DeleteFeature_err :: "nat \<Rightarrow> OGRErr"
  SetGeometry_err :: "geometry \<Rightarrow> OGRErr"
  SetField_raises :: "string \<Rightarrow> py_value \<Rightarrow> bool"
  CreateFeature_err :: "feature \<Rightarrow> OGRErr"
  CommitTransaction_err :: "(nat \<times> feature) list \<Rightarrow> OGRErr"

datatype txn_event = Started | Committed | RolledBack

text \<open>
  A layer: its schema (the field names of \<^verbatim>\<open>GetLayerDefn()\<close>), its geometry type, its
  features by FID in reading order, the next free FID, the content saved by an open
  transaction, and the journal of the transaction calls that completed.
  \<^verbatim>\<open>StartTransaction\<close> and \<^verbatim>\<open>RollbackTransaction\<close> are taken to succeed.
\<close>

record layer =
  GetLayerDefn :: "string list"
  GetGeomType :: wkb_type
  rows :: "(nat \<times> feature) list"
  next_fid :: nat
  saved :: "((nat \<times> feature) list \<times> nat) option"
  journal :: "txn_event list"

definition GetFeatureCount :: "layer \<Rightarrow> nat" where
  "GetFeatureCount l = length (rows l)"

text \<open>What a reader of the layer sees: schema, geometry type, features, next FID.\<close>

definition content :: "layer \<Rightarrow> string list \<times> wkb_type \<times> (nat \<times> feature) list \<times> nat" where
  "content l = (GetLayerDefn l, GetGeomType l, rows l, next_fid l)"

definition StartTransaction :: "layer \<Rightarrow> layer" where
  "StartTransaction l = l\<lparr>saved := Some (rows l, next_fid l), journal := journal l @ [Started]\<rparr>"

definition RollbackTransaction :: "layer \<Rightarrow> layer" where
  "RollbackTransaction l =
     (case saved l of
        Some (r, n) \<Rightarrow> l\<lparr>rows := r, next_fid := n, saved := None, journal := journal l @ [RolledBack]\<rparr>
      | None \<Rightarrow> l\<lparr>journal := journal l @ [RolledBack]\<rparr>)"

definition CommitTransaction :: "engine \<Rightarrow> layer \<Rightarrow> layer \<times> (py_exception + OGRErr)" where
  "CommitTransaction eng l =
     (let err = CommitTransaction_err eng (rows l) in
      (if err = OGRERR_NONE then l\<lparr>saved := None, journal := journal l @ [Committed]\<rparr> else l,
       UseExceptions err))"

definition DeleteFeature :: "engine \<Rightarrow> layer \<Rightarrow> nat \<Rightarrow> layer \<times> (py_exception + OGRErr)" where
  "DeleteFeature eng l fid =
     (let err = DeleteFeature_err eng fid in
      (if err = OGRERR_NONE then l\<lparr>rows := filter (\<lambda>r. fst r \<noteq> fid) (rows l)\<rparr> else l,
       UseExceptions err))"

definition CreateFeature :: "engine \<Rightarrow> layer \<Rightarrow> feature \<Rightarrow> layer \<times> (py_exception + OGRErr)" where
  "CreateFeature eng l f =
     (let err = CreateFeature_err eng f in
      (if err = OGRERR_NONE
       then l\<lparr>rows := rows l @ [(next_fid l, f)], next_fid := Suc (next_fid l)\<rparr> else l,
       UseExceptions err))"

definition SetGeometry :: "engine \<Rightarrow> feature \<Rightarrow> geometry \<Rightarrow> feature \<times> (py_exception + OGRErr)" where
  "SetGeometry eng f g =
     (let err = SetGeometry_err eng g in
      (if err = OGRERR_NONE then f\<lparr>GetGeometryRef := Some g\<rparr> else f, UseExceptions err))"

subsection \<open>\<^verbatim>\<open>clear_and_repopulate_layer\<close> (lines 95-172)\<close>

text \<open>One entry of \<^verbatim>\<open>features_data\<close>: the dictionary with keys \<^verbatim>\<open>geom\<close> and \<^verbatim>\<open>attributes\<close>.\<close>

record feature_data =
  geom :: "geometry option"
  attributes :: "(string \<times> py_value) list"

datatype crl_log =
  Skipping_rewrite
  | Repopulating nat nat
  | Warning_deleted nat nat
  | Error_clearing
  | Warning_set_geometry
  | Warning_set_field string
  | Warning_create
  | Warning_added nat nat
  | Error_adding
  | Complete nat nat
  | Warning_final_count nat nat

text \<open>The loop \<^verbatim>\<open>for fid in fids_to_delete\<close> (lines 111-114).\<close>

fun delete_loop :: "engine \<Rightarrow> nat list \<Rightarrow> layer \<Rightarrow> nat \<Rightarrow> layer \<times> (py_exception + nat)" where
  "delete_loop eng [] l deleted_count = (l, Inr deleted_count)"
| "delete_loop eng (fid # fids_to_delete) l deleted_count =
     (case DeleteFeature eng l fid of
        (l', Inl e) \<Rightarrow> (l', Inl e)
      | (l', Inr err) \<Rightarrow>
          delete_loop eng fids_to_delete l'
            (if err = OGRERR_NONE then deleted_count + 1 else deleted_count))"

text \<open>
  The first \<^verbatim>\<open>try\<close> block (lines 107-117): the transaction starts, the FIDs are read,
  every feature is deleted. The result is the layer as the block leaves it and either the
  exception that ended it or the number of deletions.
\<close>

definition clear_block :: "engine \<Rightarrow> layer \<Rightarrow> layer \<times> (py_exception + nat)" where
  "clear_block eng l =
     (let l1 = StartTransaction l; fids_to_delete = map fst (rows l1)
      in delete_loop eng fids_to_delete l1 0)"

text \<open>
  The loop \<^verbatim>\<open>for name, value in attrs.items()\<close> (lines 140-146); a \<^verbatim>\<open>SetField\<close>
  that raises is caught here, logged, and the field stays unset.
\<close>

fun set_fields ::
  "engine \<Rightarrow> string list \<Rightarrow> (string \<times> py_value) list \<Rightarrow> feature \<Rightarrow> crl_log list
     \<Rightarrow> feature \<times> crl_log list" where
  "set_fields eng layer_defn [] new_feature lg = (new_feature, lg)"
| "set_fields eng layer_defn ((name, v) # attrs) new_feature lg =
     (if GetFieldIndex layer_defn name \<ge> 0 then
        (if SetField_raises eng name v
         then set_fields eng layer_defn attrs new_feature (lg @ [Warning_set_field name])
         else set_fields eng layer_defn attrs (SetField new_feature name v) lg)
      else set_fields eng layer_defn attrs new_feature lg)"

text \<open>The loop \<^verbatim>\<open>for data in features_data\<close> (lines 126-154).\<close>

fun add_loop ::
  "engine \<Rightarrow> feature_data list \<Rightarrow> layer \<Rightarrow> nat \<Rightarrow> crl_log list
     \<Rightarrow> (layer \<times> crl_log list) \<times> (py_exception + nat)" where
  "add_loop eng [] l added_count lg = ((l, lg), Inr added_count)"
| "add_loop eng (data # features_data) l added_count lg =
     (case geom data of
        None \<Rightarrow> add_loop eng features_data l added_count lg
      | Some g \<Rightarrow>
          if IsEmpty g then add_loop eng features_data l added_count lg
          else
            (case SetGeometry eng (new_Feature (GetLayerDefn l)) g of
               (new_feature, Inl e) \<Rightarrow> ((l, lg), Inl e)
             | (new_feature, Inr err) \<Rightarrow>
                 if err \<noteq> OGRERR_NONE
                 then add_loop eng features_data l added_count (lg @ [Warning_set_geometry])
                 else
                   (case set_fields eng (GetLayerDefn l) (attributes data) new_feature lg of
                      (new_feature', lg') \<Rightarrow>
                        (case CreateFeature eng l new_feature' of
                           (l', Inl e) \<Rightarrow> ((l', lg'), Inl e)
                         | (l', Inr err') \<Rightarrow>
                             if err' = OGRERR_NONE
                             then add_loop eng features_data l' (added_count + 1) lg'
                             else add_loop eng features_data l' added_count
                                    (lg' @ [Warning_create])))))"

text \<open>
  The second \<^verbatim>\<open>try\<close> block (lines 125-159): the features are added, the transaction
  is committed, a count mismatch is logged.
\<close>

definition add_block ::
  "engine \<Rightarrow> feature_data list \<Rightarrow> layer \<Rightarrow> (layer \<times> crl_log list) \<times> (py_exception + nat)" where
  "add_block eng features_data l =
     (case add_loop eng features_data l 0 [] of
        ((l', lg), Inl e) \<Rightarrow> ((l', lg), Inl e)
      | ((l', lg), Inr added_count) \<Rightarrow>
          (case CommitTransaction eng l' of
             (l'', Inl e) \<Rightarrow> ((l'', lg), Inl e)
           | (l'', Inr err) \<Rightarrow>
               ((l'', if added_count \<noteq> length features_data
                      then lg @ [Warning_added added_count (length features_data)] else lg),
                Inr added_count)))"

record crl_result =
  ret :: bool
  lyr :: layer
  msgs :: "crl_log list"

definition clear_and_repopulate_layer :: "engine \<Rightarrow> layer \<Rightarrow> feature_data list \<Rightarrow> crl_result" where
  "clear_and_repopulate_layer eng l features_data =
     (let original_count = GetFeatureCount l; kept_count = length features_data in
      if kept_count = 0 \<and> original_count = 0
      then \<lparr>ret = True, lyr = l, msgs = [Skipping_rewrite]\<rparr>
      else
        (case clear_block eng l of
           (l1, Inl e) \<Rightarrow>
             \<lparr>ret = False, lyr = RollbackTransaction l1,
              msgs = [Repopulating original_count kept_count, Error_clearing]\<rparr>
         | (l1, Inr deleted_count) \<Rightarrow>
             (let lg1 = Repopulating original_count kept_count
                          # (if deleted_count \<noteq> original_count
                             then [Warning_deleted deleted_count original_count] else [])
              in case add_block eng features_data l1 of
                ((l2, lg2), Inl e) \<Rightarrow>
                  \<lparr>ret = False, lyr = RollbackTransaction l2, msgs = lg1 @ lg2 @ [Error_adding]\<rparr>
              | ((l2, lg2), Inr added_count) \<Rightarrow>
                  (let final_count = GetFeatureCount l2 in
                   \<lparr>ret = True, lyr = l2,
                    msgs = lg1 @ lg2 @ Complete final_count kept_count
                             # (if final_count \<noteq> kept_count
                                then [Warning_final_count final_count kept_count] else [])\<rparr>))))"

subsection \<open>The stages\<close>

text \<open>
  Every stage reads the features in order, builds the list of candidates and hands it to
  \<open>clear_and_repopulate_layer\<close>. A stage returns its success flag and the layer; the
  progress messages of the stages are not modelled.
  \<^verbatim>\<open>attrs = {name: feature.GetField(name) for name in field_names}\<close>:
\<close>

definition read_attrs :: "string list \<Rightarrow> feature \<Rightarrow> (string \<times> py_value) list" where
  "read_attrs field_names f = map (\<lambda>name. (name, GetField f name)) field_names"





text \<open>\<^verbatim>\<open>fix_layer_geometries\<close> (lines 493-598).\<close>

record fix_counts =
  invalid_count :: nat
  repaired_count :: nat
  discarded_count :: nat

text \<open>
  Lines 553-560: the valid polygon members of a repaired collection are added to
  \<open>collection_extract\<close>.
\<close>

fun extract_parts ::
  "engine \<Rightarrow> geometry list \<Rightarrow> geometry \<Rightarrow> bool \<Rightarrow> py_exception + (geometry \<times> bool)" where
  "extract_parts eng [] collection_extract valid_parts_found =
     Inr (collection_extract, valid_parts_found)"
| "extract_parts eng (part # parts) collection_extract valid_parts_found =
     (if \<not> IsEmpty part \<and> GT_Flatten (GetGeometryType part) = wkbPolygon \<and> IsValid eng part
      then
        (case AddGeometry collection_extract part of
           (collection_extract', Inl e) \<Rightarrow> Inl e
         | (collection_extract', Inr err) \<Rightarrow>
             extract_parts eng parts collection_extract'
               (if err = OGRERR_NONE then True else valid_parts_found))
      else extract_parts eng parts collection_extract valid_parts_found)"

text \<open>
  Lines 524-580: what becomes of one feature's geometry. The result is \<open>final_geom\<close> and
  the counters; an exception of \<^verbatim>\<open>AddGeometry\<close> is not caught by the stage.
\<close>

definition fix_geometry ::
  "engine \<Rightarrow> wkb_type \<Rightarrow> geometry option \<Rightarrow> fix_counts
     \<Rightarrow> py_exception + (geometry option \<times> fix_counts)" where
  "fix_geometry eng target_geom_type g_opt c =
     (case g_opt of
        None \<Rightarrow> Inr (None, c\<lparr>discarded_count := discarded_count c + 1\<rparr>)
      | Some g \<Rightarrow>
          if IsEmpty g then Inr (None, c\<lparr>discarded_count := discarded_count c + 1\<rparr>)
          else if IsValid eng g then Inr (Some g, c)
          else
            let c1 = c\<lparr>invalid_count := invalid_count c + 1\<rparr>;
                (repaired_geom, c2) =
                  (case MakeValid eng g of
                     Inl e \<Rightarrow> (None, c1\<lparr>discarded_count := discarded_count c1 + 1\<rparr>)
                   | Inr rg \<Rightarrow> (rg, c1));
                discarded = c2\<lparr>discarded_count := discarded_count c2 + 1\<rparr>;
                repaired = c2\<lparr>repaired_count := repaired_count c2 + 1\<rparr>
            in
              (case repaired_geom of
                 None \<Rightarrow> Inr (None, discarded)
               | Some rg \<Rightarrow>
                   if IsEmpty rg then Inr (None, discarded)
                   else
                     let repaired_flat_type = GT_Flatten (GetGeometryType rg);
                         target_flat_geom_type = GT_Flatten target_geom_type
                     in
                       if repaired_flat_type = target_flat_geom_type then
                         (if IsValid eng rg then Inr (Some rg, repaired) else Inr (None, discarded))
                       else if repaired_flat_type = wkbGeometryCollection
                               \<and> (target_flat_geom_type = wkbPolygon
                                    \<or> target_flat_geom_type = wkbMultiPolygon) then
                         (case extract_parts eng (GetGeometries rg)
                                 (new_Geometry target_geom_type) False of
                            Inl e \<Rightarrow> Inl e
                          | Inr (collection_extract, valid_parts_found) \<Rightarrow>
                              if valid_parts_found then
                                (if IsValid eng collection_extract
                                 then Inr (Some collection_extract, repaired)
                                 else Inr (None, discarded))
                              else Inr (None, discarded))
                       else Inr (None, discarded)))"

text \<open>The loop \<^verbatim>\<open>while feature\<close> (lines 517-593).\<close>

fun fix_loop ::
  "engine \<Rightarrow> wkb_type \<Rightarrow> string list \<Rightarrow> (nat \<times> feature) list \<Rightarrow> feature_data list \<Rightarrow> fix_counts
     \<Rightarrow> py_exception + (feature_data list \<times> fix_counts)" where
  "fix_loop eng target_geom_type field_names [] processed_data c = Inr (processed_data, c)"
| "fix_loop eng target_geom_type field_names ((fid, f) # rest) processed_data c =
     (case fix_geometry eng target_geom_type (GetGeometryRef f) c of
        Inl e \<Rightarrow> Inl e
      | Inr (final_geom, c') \<Rightarrow>
          (case final_geom of
             Some g \<Rightarrow>
               fix_loop eng target_geom_type field_names rest
                 (processed_data @ [\<lparr>geom = Some g, attributes = read_attrs field_names f\<rparr>]) c'
           | None \<Rightarrow> fix_loop eng target_geom_type field_names rest processed_data c'))"

definition fix_layer_geometries ::
  "engine \<Rightarrow> layer \<Rightarrow> py_exception + (bool \<times> layer \<times> fix_counts)" where
  "fix_layer_geometries eng l =
     (let zero = \<lparr>invalid_count = 0, repaired_count = 0, discarded_count = 0\<rparr> in
      if GetFeatureCount l = 0 then Inr (True, l, zero)
      else
        (case fix_loop eng (GetGeomType l) (GetLayerDefn l) (rows l) [] zero of
           Inl e \<Rightarrow> Inl e
         | Inr (processed_data, c) \<Rightarrow>
             (let r = clear_and_repopulate_layer eng l processed_data
              in Inr (ret r, lyr r, c))))"











subsection \<open>Rasters, extraction and the run (\<^verbatim>\<open>initial_polygonize_band\<close>, \<^verbatim>\<open>run_processing\<close>)\<close>























subsection \<open>Notions used to state the properties\<close>

text \<open>A candidate that the rewrite adds: its geometry is present and not empty (line 130).\<close>

definition addable :: "feature_data \<Rightarrow> bool" where
  "addable d \<longleftrightarrow> (case geom d of Some g \<Rightarrow> \<not> IsEmpty g | None \<Rightarrow> False)"

text \<open>The feature the rewrite builds from a candidate (lines 133-146).\<close>

definition built :: "engine \<Rightarrow> string list \<Rightarrow> feature_data \<Rightarrow> feature" where
  "built eng layer_defn d =
     fst (set_fields eng layer_defn (attributes d)
            ((new_Feature layer_defn)\<lparr>GetGeometryRef := geom d\<rparr>) [])"




text \<open>\<open>final_geom\<close> of lines 522-580 for one geometry, the counters left out.\<close>

definition final_geom :: "engine \<Rightarrow> wkb_type \<Rightarrow> geometry option \<Rightarrow> geometry option" where
  "final_geom eng target_geom_type g_opt =
     (case fix_geometry eng target_geom_type g_opt
             \<lparr>invalid_count = 0, repaired_count = 0, discarded_count = 0\<rparr> of
        Inr (fg, c) \<Rightarrow> fg
      | Inl e \<Rightarrow> None)"


text \<open>Engines and layers for the examples.\<close>

definition ideal_engine :: engine where
  "ideal_engine =
     \<lparr>IsValid = (\<lambda>g. True), MakeValid = (\<lambda>g. Inr (Some g)),
      SimplifyPreserveTopology = (\<lambda>g tolerance. Inr (Some g)), Area = (\<lambda>g. Inr 0),
      DeleteFeature_err = (\<lambda>fid. OGRERR_NONE), SetGeometry_err = (\<lambda>g. OGRERR_NONE),
      SetField_raises = (\<lambda>name v. False), CreateFeature_err = (\<lambda>f. OGRERR_NONE),
      CommitTransaction_err = (\<lambda>rs. OGRERR_NONE)\<rparr>"

definition empty_layer :: layer where
  "empty_layer =
     \<lparr>GetLayerDefn = [''DN''], GetGeomType = (wkbMultiPolygon, False), rows = [], next_fid = 1,
      saved = None, journal = []\<rparr>"

definition square_polygon :: geometry where
  "square_polygon =
     Geometry (wkbPolygon, False) []
       [Geometry (wkbLinearRing, False)
          [(0, 0, None), (1, 0, None), (1, 1, None), (0, 1, None), (0, 0, None)] []]"





text \<open>
  A self-intersecting polygon, and an engine that finds every geometry valid but this one and
  repairs it into a collection of one polygon and one degenerate line.
\<close>

definition bowtie :: geometry where
  "bowtie =
     Geometry (wkbPolygon, False) []
       [Geometry (wkbLinearRing, False)
          [(0, 0, None), (2, 2, None), (2, 0, None), (0, 2, None), (0, 0, None)] []]"

definition bowtie_triangle :: geometry where
  "bowtie_triangle =
     Geometry (wkbPolygon, False) []
       [Geometry (wkbLinearRing, False)
          [(0, 0, None), (1, 1, None), (0, 2, None), (0, 0, None)] []]"

definition degenerate_line :: geometry where
  "degenerate_line = Geometry (wkbLineString, False) [(1, 1, None), (1, 1, None)] []"

definition bowtie_repaired :: geometry where
  "bowtie_repaired = Geometry (wkbGeometryCollection, False) [] [bowtie_triangle, degenerate_line]"

definition bowtie_engine :: engine where
  "bowtie_engine =
     ideal_engine
       \<lparr>IsValid := (\<lambda>g. g \<noteq> bowtie),
        MakeValid := (\<lambda>g. if g = bowtie then Inr (Some bowtie_repaired) else Inr (Some g))\<rparr>"

definition bowtie_layer :: layer where
  "bowtie_layer =
     empty_layer
       \<lparr>rows := [(1, \<lparr>GetGeometryRef = Some bowtie, field_values = [(''DN'', PyInt 1)]\<rparr>),
                 (2, \<lparr>GetGeometryRef = Some square_polygon, field_values = [(''DN'', PyInt 1)]\<rparr>)],
        next_fid := 3\<rparr>"




text \<open>The layers the examples end with.\<close>

definition fixed_bowtie_layer :: layer where
  "fixed_bowtie_layer =
     empty_layer
       \<lparr>rows := [(3, \<lparr>GetGeometryRef = Some (Geometry (wkbMultiPolygon, False) [] [bowtie_triangle]),
                       field_values = [(''DN'', PyInt 1)]\<rparr>),
                 (4, \<lparr>GetGeometryRef = Some square_polygon, field_values = [(''DN'', PyInt 1)]\<rparr>)],
        next_fid := 5, journal := [Started, Committed]\<rparr>"
















section \<open>Properties\<close>

subsection \<open>Threshold\<close>







subsection \<open>Chaikin\<close>

lemma chaikin_segments_concat:
  "chaikin_segments ps =
     concat (map (\<lambda>i. [chaikin_r (ps ! i) (ps ! (i + 1)), chaikin_q (ps ! i) (ps ! (i + 1))])
                 [0 ..< length ps - 1])"
proof -
  have "foldl (\<lambda>acc i. (acc @ [f i]) @ [g i]) acc0 is = acc0 @ concat (map (\<lambda>i. [f i, g i]) is)"
    for f g :: "nat \<Rightarrow> point2d" and acc0 "is"
    by (induction "is" arbitrary: acc0) simp_all
  then show ?thesis
    unfolding chaikin_segments_def by simp
qed

lemma length_chaikin_segments: "length (chaikin_segments ps) = 2 * (length ps - 1)"
  by (simp add: chaikin_segments_concat length_concat comp_def sum_list_triv)

lemma chaikin_segments_nonempty: "2 \<le> length ps \<Longrightarrow> chaikin_segments ps \<noteq> []"
  using length_chaikin_segments [of ps] by (cases "chaikin_segments ps") auto

lemma length_close_ring: "length (close_ring ps) = length ps + 1"
  by (simp add: close_ring_def)

lemma chaikin_loop_no_stop:
  "4 \<le> length ps \<Longrightarrow>
     snd (chaikin_loop i k ps) = [] \<and> length (fst (chaikin_loop i k ps)) = 2 ^ k * (length ps - 1) + 1"
proof (induction k arbitrary: i ps)
  case 0
  then show ?case by simp
next
  case (Suc k)
  let ?next = "close_ring (chaikin_segments ps)"
  have len: "length ?next = 2 * (length ps - 1) + 1"
    by (simp add: length_close_ring length_chaikin_segments)
  with Suc.prems have "4 \<le> length ?next" by simp
  from Suc.IH [OF this, of "Suc i"] len Suc.prems chaikin_segments_nonempty [of ps]
  show ?case by (simp add: Let_def)
qed

lemma chaikin_segments_first:
  "2 \<le> length ps \<Longrightarrow> chaikin_segments ps ! 0 = chaikin_r (ps ! 0) (ps ! 1)"
proof -
  assume "2 \<le> length ps"
  then have "[0 ..< length ps - 1] = 0 # [1 ..< length ps - 1]"
    by (simp add: upt_conv_Cons)
  then show ?thesis by (simp add: chaikin_segments_concat)
qed

lemma apply_chaikin_once:
  "4 \<le> length ps \<Longrightarrow>
     fst (apply_chaikin_to_ring ps 1) = chaikin_segments ps @ [chaikin_r (ps ! 0) (ps ! 1)]"
  using chaikin_segments_nonempty [of ps] chaikin_segments_first [of ps]
  by (auto simp: apply_chaikin_to_ring_def close_ring_def Let_def)

text \<open>
  C4, as stated, fails in its example: one iteration on the unit square never gives 8 points.
  Given as the explicitly closed ring of 5 points (4 segments) the output has 9 points, the 8
  emitted ones and the closing one; given as its 4 corners alone (3 segments) it has 7.
\<close>

theorem chaikin_unit_square_counterexample:
  "length (fst (apply_chaikin_to_ring unit_square_ring 1)) = 9
   \<and> length (fst (apply_chaikin_to_ring unit_square_ring 1)) \<noteq> 8
   \<and> length (fst (apply_chaikin_to_ring unit_square_corners 1)) = 7
   \<and> length (fst (apply_chaikin_to_ring unit_square_corners 1)) \<noteq> 8"
  by code_simp

text \<open>
  C4, amended: for a ring of \<open>n \<ge> 4\<close> points \<open>P\<close>, one iteration emits for each
  \<open>i\<close> in \<open>0..n-2\<close> the points \<open>0.75 P[i] + 0.25 P[i+1]\<close> and then
  \<open>0.25 P[i] + 0.75 P[i+1]\<close>, in segment order, and appends the first emitted point; the
  output has \<open>2 (n - 1) + 1\<close> points and its last point equals its first. (For the closed
  unit square, 5 points, that is 9 points: see the witness.)
\<close>

theorem chaikin_one_iteration:
  "4 \<le> length P \<longrightarrow>
     fst (apply_chaikin_to_ring P 1) =
       concat (map (\<lambda>i. [(3/4 * fst (P ! i) + 1/4 * fst (P ! (i + 1)),
                          3/4 * snd (P ! i) + 1/4 * snd (P ! (i + 1))),
                         (1/4 * fst (P ! i) + 3/4 * fst (P ! (i + 1)),
                          1/4 * snd (P ! i) + 3/4 * snd (P ! (i + 1)))])
                   [0 ..< length P - 1])
         @ [(3/4 * fst (P ! 0) + 1/4 * fst (P ! 1), 3/4 * snd (P ! 0) + 1/4 * snd (P ! 1))]
     \<and> length (fst (apply_chaikin_to_ring P 1)) = 2 * (length P - 1) + 1
     \<and> last (fst (apply_chaikin_to_ring P 1)) = hd (fst (apply_chaikin_to_ring P 1))"
proof
  assume P: "4 \<le> length P"
  have seg: "chaikin_segments P \<noteq> []" using P chaikin_segments_nonempty [of P] by simp
  have hd0: "hd (chaikin_segments P) = chaikin_r (P ! 0) (P ! 1)"
    using seg chaikin_segments_first [of P] P by (simp add: hd_conv_nth)
  show "fst (apply_chaikin_to_ring P 1) =
       concat (map (\<lambda>i. [(3/4 * fst (P ! i) + 1/4 * fst (P ! (i + 1)),
                          3/4 * snd (P ! i) + 1/4 * snd (P ! (i + 1))),
                         (1/4 * fst (P ! i) + 3/4 * fst (P ! (i + 1)),
                          1/4 * snd (P ! i) + 3/4 * snd (P ! (i + 1)))])
                   [0 ..< length P - 1])
         @ [(3/4 * fst (P ! 0) + 1/4 * fst (P ! 1), 3/4 * snd (P ! 0) + 1/4 * snd (P ! 1))]
     \<and> length (fst (apply_chaikin_to_ring P 1)) = 2 * (length P - 1) + 1
     \<and> last (fst (apply_chaikin_to_ring P 1)) = hd (fst (apply_chaikin_to_ring P 1))"
    using apply_chaikin_once [OF P] seg hd0
    by (simp add: chaikin_segments_concat [symmetric] length_chaikin_segments)
      (simp add: chaikin_segments_concat chaikin_r_def chaikin_q_def)
qed

text \<open>C4, amended, on the closed unit square: 9 points, closed.\<close>

theorem chaikin_one_iteration_witness:
  "4 \<le> length unit_square_ring
   \<and> fst (apply_chaikin_to_ring unit_square_ring 1) =
       [(1/4, 0), (3/4, 0), (1, 1/4), (1, 3/4), (3/4, 1), (1/4, 1), (0, 3/4), (0, 1/4), (1/4, 0)]
   \<and> length (fst (apply_chaikin_to_ring unit_square_ring 1)) = 9
   \<and> last (fst (apply_chaikin_to_ring unit_square_ring 1))
       = hd (fst (apply_chaikin_to_ring unit_square_ring 1))"
proof -
  have h: "4 \<le> length unit_square_ring" by (simp add: unit_square_ring_def)
  show ?thesis using h chaikin_one_iteration [of unit_square_ring]
    by (simp add: unit_square_ring_def upt_conv_Cons)
qed

text \<open>
  C9: one iteration turns \<open>n \<ge> 2\<close> points into \<open>2 (n - 1) + 1 \<ge> n\<close> points; so from a
  sequence of at least 4 points, for every iteration count, the warning of the early-stop
  branch is never emitted, the loop runs all its rounds (the result has
  \<open>2^k (n - 1) + 1\<close> points) and the count stays at 4 or more.
\<close>

theorem chaikin_never_stops_early:
  "(2 \<le> length ps \<longrightarrow>
      length (close_ring (chaikin_segments ps)) = 2 * (length ps - 1) + 1
      \<and> length ps \<le> length (close_ring (chaikin_segments ps)))
   \<and> (4 \<le> length points \<longrightarrow>
      snd (apply_chaikin_to_ring points k) = []
      \<and> length (fst (apply_chaikin_to_ring points k)) = 2 ^ nat k * (length points - 1) + 1
      \<and> 4 \<le> length (fst (apply_chaikin_to_ring points k)))"
proof -
  have step: "length (close_ring (chaikin_segments ps)) = 2 * (length ps - 1) + 1"
    by (simp add: length_close_ring length_chaikin_segments)
  have run: "snd (apply_chaikin_to_ring points k) = []
      \<and> length (fst (apply_chaikin_to_ring points k)) = 2 ^ nat k * (length points - 1) + 1"
    if "4 \<le> length points"
    using that chaikin_loop_no_stop [OF that, of 0 "nat k"]
    by (auto simp: apply_chaikin_to_ring_def)
  have big: "4 \<le> 2 ^ nat k * (length points - 1) + 1" if "4 \<le> length points"
  proof -
    have "length points - 1 \<le> 2 ^ nat k * (length points - 1)"
      by simp
    with that show ?thesis by linarith
  qed
  show ?thesis using step run big by auto
qed

text \<open>C9 on the closed unit square with 3 iterations: no warning, 33 points.\<close>

theorem chaikin_never_stops_early_witness:
  "2 \<le> length unit_square_ring \<and> 4 \<le> length unit_square_ring
   \<and> length (close_ring (chaikin_segments unit_square_ring)) = 9
   \<and> snd (apply_chaikin_to_ring unit_square_ring 3) = []
   \<and> length (fst (apply_chaikin_to_ring unit_square_ring 3)) = 33"
proof -
  have h: "length unit_square_ring = 5" by (simp add: unit_square_ring_def)
  show ?thesis
    using chaikin_never_stops_early [of unit_square_ring unit_square_ring 3] h
    by (simp add: nat_numeral)
qed

subsection \<open>The transactional rewrite\<close>

lemma delete_loop_frame:
  "delete_loop eng fids l n = (l', res) \<Longrightarrow>
     saved l' = saved l \<and> journal l' = journal l \<and> GetLayerDefn l' = GetLayerDefn l
     \<and> GetGeomType l' = GetGeomType l \<and> next_fid l' = next_fid l"
  by (induction fids arbitrary: l n)
    (auto simp: DeleteFeature_def Let_def UseExceptions_def split: if_splits)

lemma add_loop_frame:
  "add_loop eng ds l n lg = ((l', lg'), res) \<Longrightarrow>
     saved l' = saved l \<and> journal l' = journal l \<and> GetLayerDefn l' = GetLayerDefn l
     \<and> GetGeomType l' = GetGeomType l"
  by (induction ds arbitrary: l n lg)
    (auto simp: CreateFeature_def SetGeometry_def Let_def UseExceptions_def
          split: if_splits option.splits prod.splits)

lemma clear_block_frame:
  "clear_block eng l = (l', res) \<Longrightarrow>
     saved l' = Some (rows l, next_fid l) \<and> journal l' = journal l @ [Started]
     \<and> GetLayerDefn l' = GetLayerDefn l \<and> GetGeomType l' = GetGeomType l"
  unfolding clear_block_def Let_def
  by (drule delete_loop_frame) (simp add: StartTransaction_def)

lemma add_block_raised:
  "add_block eng ds l = ((l', lg), Inl e) \<Longrightarrow>
     saved l' = saved l \<and> journal l' = journal l \<and> GetLayerDefn l' = GetLayerDefn l
     \<and> GetGeomType l' = GetGeomType l"
  unfolding add_block_def
  by (auto simp: CommitTransaction_def Let_def UseExceptions_def
        split: prod.splits sum.splits if_splits dest: add_loop_frame)

lemma add_block_returned:
  "add_block eng ds l = ((l', lg), Inr a) \<Longrightarrow>
     saved l' = None \<and> journal l' = journal l @ [Committed] \<and> GetLayerDefn l' = GetLayerDefn l
     \<and> GetGeomType l' = GetGeomType l
     \<and> (a \<noteq> length ds \<longrightarrow> Warning_added a (length ds) \<in> set lg)"
  unfolding add_block_def
  by (auto simp: CommitTransaction_def Let_def UseExceptions_def
        split: prod.splits sum.splits if_splits dest: add_loop_frame)

lemma rollback_restores:
  "saved l' = Some (rows l, next_fid l) \<Longrightarrow> GetLayerDefn l' = GetLayerDefn l \<Longrightarrow>
   GetGeomType l' = GetGeomType l \<Longrightarrow>
     content (RollbackTransaction l') = content l
     \<and> journal (RollbackTransaction l') = journal l' @ [RolledBack]
     \<and> saved (RollbackTransaction l') = None"
  by (simp add: RollbackTransaction_def content_def)

lemma crl_noop:
  "features_data = [] \<and> rows l = [] \<Longrightarrow>
     clear_and_repopulate_layer eng l features_data = \<lparr>ret = True, lyr = l, msgs = [Skipping_rewrite]\<rparr>"
  by (simp add: clear_and_repopulate_layer_def GetFeatureCount_def)

lemma crl_clear_raised:
  assumes "\<not> (features_data = [] \<and> rows l = [])" and "clear_block eng l = (l1, Inl e)"
  shows "clear_and_repopulate_layer eng l features_data =
           \<lparr>ret = False, lyr = RollbackTransaction l1,
            msgs = [Repopulating (length (rows l)) (length features_data), Error_clearing]\<rparr>"
  using assms by (auto simp: clear_and_repopulate_layer_def GetFeatureCount_def Let_def)

lemma crl_add_raised:
  assumes "\<not> (features_data = [] \<and> rows l = [])" and "clear_block eng l = (l1, Inr d)"
    and "add_block eng features_data l1 = ((l2, lg2), Inl e)"
  shows "ret (clear_and_repopulate_layer eng l features_data) = False
         \<and> lyr (clear_and_repopulate_layer eng l features_data) = RollbackTransaction l2"
  using assms by (auto simp: clear_and_repopulate_layer_def GetFeatureCount_def Let_def)

lemma crl_committed:
  assumes "\<not> (features_data = [] \<and> rows l = [])" and "clear_block eng l = (l1, Inr d)"
    and "add_block eng features_data l1 = ((l2, lg2), Inr a)"
  shows "ret (clear_and_repopulate_layer eng l features_data) = True
         \<and> lyr (clear_and_repopulate_layer eng l features_data) = l2
         \<and> set lg2 \<subseteq> set (msgs (clear_and_repopulate_layer eng l features_data))"
  using assms by (auto simp: clear_and_repopulate_layer_def GetFeatureCount_def Let_def)

lemma crl_cases:
  fixes eng l features_data
  defines "r \<equiv> clear_and_repopulate_layer eng l features_data"
  obtains (noop) "features_data = [] \<and> rows l = []" "ret r" "lyr r = l"
  | (clear_raised) l1 e where "\<not> (features_data = [] \<and> rows l = [])"
      "clear_block eng l = (l1, Inl e)" "\<not> ret r" "content (lyr r) = content l"
      "journal (lyr r) = journal l @ [Started, RolledBack]" "saved (lyr r) = None"
  | (add_raised) l1 d l2 lg2 e where "\<not> (features_data = [] \<and> rows l = [])"
      "clear_block eng l = (l1, Inr d)" "add_block eng features_data l1 = ((l2, lg2), Inl e)"
      "\<not> ret r" "content (lyr r) = content l"
      "journal (lyr r) = journal l @ [Started, RolledBack]" "saved (lyr r) = None"
  | (committed) l1 d l2 lg2 a where "\<not> (features_data = [] \<and> rows l = [])"
      "clear_block eng l = (l1, Inr d)" "add_block eng features_data l1 = ((l2, lg2), Inr a)"
      "ret r" "lyr r = l2" "journal (lyr r) = journal l @ [Started, Committed]"
      "saved (lyr r) = None" "GetLayerDefn (lyr r) = GetLayerDefn l"
      "GetGeomType (lyr r) = GetGeomType l"
      "a \<noteq> length features_data \<longrightarrow> Warning_added a (length features_data) \<in> set (msgs r)"
proof (cases "features_data = [] \<and> rows l = []")
  case True
  with crl_noop [OF True, of eng] noop show ?thesis by (simp add: r_def)
next
  case nn: False
  obtain l1 res1 where c: "clear_block eng l = (l1, res1)" by (cases "clear_block eng l")
  note cf = clear_block_frame [OF c]
  show ?thesis
  proof (cases res1)
    case (Inl e)
    from crl_clear_raised [OF nn c [unfolded Inl]] rollback_restores [of l1 l] cf
    have "\<not> ret r" "content (lyr r) = content l"
      "journal (lyr r) = journal l @ [Started, RolledBack]" "saved (lyr r) = None"
      by (simp_all add: r_def)
    with nn c Inl clear_raised show ?thesis by blast
  next
    case (Inr d)
    obtain l2 lg2 res2 where a: "add_block eng features_data l1 = ((l2, lg2), res2)"
      by (cases "add_block eng features_data l1") auto
    show ?thesis
    proof (cases res2)
      case (Inl e)
      note af = add_block_raised [OF a [unfolded Inl]]
      from crl_add_raised [OF nn c [unfolded Inr] a [unfolded Inl]]
        rollback_restores [of l2 l] cf af
      have "\<not> ret r" "content (lyr r) = content l"
        "journal (lyr r) = journal l @ [Started, RolledBack]" "saved (lyr r) = None"
        by (simp_all add: r_def)
      with nn c Inr a Inl add_raised show ?thesis by blast
    next
      case (Inr a')
      note af = add_block_returned [OF a [unfolded Inr]]
      from crl_committed [OF nn c [unfolded \<open>res1 = Inr d\<close>] a [unfolded Inr]] af cf
      have "ret r" "lyr r = l2" "journal (lyr r) = journal l @ [Started, Committed]"
        "saved (lyr r) = None" "GetLayerDefn (lyr r) = GetLayerDefn l"
        "GetGeomType (lyr r) = GetGeomType l"
        "a' \<noteq> length features_data \<longrightarrow> Warning_added a' (length features_data) \<in> set (msgs r)"
        by (auto simp: r_def)
      with nn c \<open>res1 = Inr d\<close> a Inr committed show ?thesis by blast
    qed
  qed
qed





subsection \<open>What a committed rewrite leaves in the layer\<close>

lemma UseExceptions_Inr: "UseExceptions err = Inr err' \<longleftrightarrow> err = OGRERR_NONE \<and> err' = OGRERR_NONE"
  by (auto simp: UseExceptions_def)

lemma UseExceptions_Inl: "UseExceptions err = Inl e \<longleftrightarrow> err \<noteq> OGRERR_NONE \<and> e = RuntimeError"
  by (auto simp: UseExceptions_def)

lemma delete_loop_rows:
  "delete_loop eng fids l n = (l', Inr d) \<Longrightarrow>
     rows l' = filter (\<lambda>r. fst r \<notin> set fids) (rows l)"
proof (induction fids arbitrary: l n)
  case Nil
  then show ?case by simp
next
  case (Cons fid fids)
  show ?case
  proof (cases "DeleteFeature_err eng fid = OGRERR_NONE")
    case True
    with Cons.prems have "delete_loop eng fids (l\<lparr>rows := filter (\<lambda>r. fst r \<noteq> fid) (rows l)\<rparr>) (n + 1)
        = (l', Inr d)"
      by (simp add: DeleteFeature_def UseExceptions_def)
    from Cons.IH [OF this] show ?thesis by (simp add: conj_commute)
  next
    case False
    with Cons.prems show ?thesis by (simp add: DeleteFeature_def UseExceptions_def)
  qed
qed

lemma clear_block_rows: "clear_block eng l = (l', Inr d) \<Longrightarrow> rows l' = []"
  unfolding clear_block_def Let_def
  by (drule delete_loop_rows) (simp add: StartTransaction_def filter_empty_conv)

lemma set_fields_log_irrelevant:
  "fst (set_fields eng defn attrs f lg) = fst (set_fields eng defn attrs f [])"
proof (induction attrs arbitrary: f lg)
  case Nil
  then show ?case by simp
next
  case (Cons a attrs)
  obtain name v where a: "a = (name, v)" by (cases a)
  show ?case using Cons.IH [of f "lg @ [Warning_set_field name]"]
      Cons.IH [of f "[Warning_set_field name]"] Cons.IH [of "SetField f name v" lg]
      Cons.IH [of f lg]
    by (simp add: a)
qed

lemma add_loop_rows:
  "add_loop eng ds l n lg = ((l', lg'), Inr a) \<Longrightarrow>
     map snd (rows l') = map snd (rows l) @ map (built eng (GetLayerDefn l)) (filter addable ds)"
proof (induction ds arbitrary: l n lg)
  case Nil
  then show ?case by simp
next
  case (Cons d ds)
  show ?case
  proof (cases "addable d")
    case False
    with Cons.prems have "add_loop eng ds l n lg = ((l', lg'), Inr a)"
      by (auto simp: addable_def split: option.splits)
    from Cons.IH [OF this] False show ?thesis by simp
  next
    case True
    then obtain g where g: "geom d = Some g" "\<not> IsEmpty g"
      by (auto simp: addable_def split: option.splits)
    let ?nf = "(new_Feature (GetLayerDefn l))\<lparr>GetGeometryRef := Some g\<rparr>"
    obtain f2 lg2 where sf: "set_fields eng (GetLayerDefn l) (attributes d) ?nf lg = (f2, lg2)"
      by (cases "set_fields eng (GetLayerDefn l) (attributes d) ?nf lg")
    have f2: "f2 = built eng (GetLayerDefn l) d"
      using sf set_fields_log_irrelevant [of eng "GetLayerDefn l" "attributes d" ?nf lg]
      by (simp add: built_def g)
    from Cons.prems g sf have sg: "SetGeometry_err eng g = OGRERR_NONE"
      by (auto simp: SetGeometry_def UseExceptions_def Let_def split: if_splits)
    from Cons.prems g sf sg have cf: "CreateFeature_err eng f2 = OGRERR_NONE"
      by (auto simp: SetGeometry_def CreateFeature_def UseExceptions_def Let_def split: if_splits)
    let ?l2 = "l\<lparr>rows := rows l @ [(next_fid l, f2)], next_fid := Suc (next_fid l)\<rparr>"
    from Cons.prems g sf sg cf have "add_loop eng ds ?l2 (n + 1) lg2 = ((l', lg'), Inr a)"
      by (simp add: SetGeometry_def CreateFeature_def UseExceptions_def Let_def)
    from Cons.IH [OF this] True f2 show ?thesis by simp
  qed
qed

lemma add_block_rows:
  "add_block eng ds l = ((l', lg'), Inr a) \<Longrightarrow>
     map snd (rows l') = map snd (rows l) @ map (built eng (GetLayerDefn l)) (filter addable ds)"
  unfolding add_block_def
  by (auto simp: CommitTransaction_def Let_def UseExceptions_def
        split: prod.splits sum.splits if_splits dest: add_loop_rows)

lemma crl_success_rows:
  assumes "ret (clear_and_repopulate_layer eng l ds)" and "\<not> (ds = [] \<and> rows l = [])"
  shows "map snd (rows (lyr (clear_and_repopulate_layer eng l ds)))
           = map (built eng (GetLayerDefn l)) (filter addable ds)"
proof (cases rule: crl_cases [of ds l eng])
  case noop
  with assms show ?thesis by simp
next
  case (clear_raised l1 e)
  with assms show ?thesis by simp
next
  case (add_raised l1 d l2 lg2 e)
  with assms show ?thesis by simp
next
  case (committed l1 d l2 lg2 a)
  from clear_block_rows [OF committed(2)] clear_block_frame [OF committed(2)]
    add_block_rows [OF committed(3)] committed(5)
  show ?thesis by simp
qed



lemma GetFieldIndex_bound: "GetFieldIndex defn name < int (length defn)"
  by (induction defn) (auto simp: Let_def)





lemma SetField_geometry: "GetGeometryRef (SetField f name v) = GetGeometryRef f"
  by (simp add: SetField_def)

lemma set_fields_geometry:
  "GetGeometryRef (fst (set_fields eng defn attrs f lg)) = GetGeometryRef f"
  by (induction attrs arbitrary: f lg) (auto simp: SetField_geometry)

lemma built_geometry: "GetGeometryRef (built eng defn d) = geom d"
  by (simp add: built_def set_fields_geometry)


















lemma extract_parts_nonempty:
  "extract_parts eng parts ce found = Inr (ce', found') \<Longrightarrow>
     (\<not> IsEmpty ce \<longrightarrow> \<not> IsEmpty ce') \<and> (found' \<longrightarrow> found \<or> \<not> IsEmpty ce')"
proof (induction parts arbitrary: ce found)
  case Nil
  then show ?case by auto
next
  case (Cons p parts)
  show ?case
  proof (cases "\<not> IsEmpty p \<and> GT_Flatten (GetGeometryType p) = wkbPolygon \<and> IsValid eng p")
    case False
    with Cons.prems have "extract_parts eng parts ce found = Inr (ce', found')" by auto
    from Cons.IH [OF this] show ?thesis .
  next
    case True
    from True Cons.prems obtain ce1 err where
      ag: "AddGeometry ce p = (ce1, Inr err)"
      and rest: "extract_parts eng parts ce1 (if err = OGRERR_NONE then True else found) = Inr (ce', found')"
      by (auto split: prod.splits sum.splits)
    from ag have acc: "accepts (GT_Flatten (GetGeometryType ce)) (GT_Flatten (GetGeometryType p))"
      and err: "err = OGRERR_NONE"
      by (auto simp: AddGeometry_def UseExceptions_def split: if_splits)
    with ag have ce1: "ce1 = Geometry (GetGeometryType ce) (GetPoints ce) (GetGeometries ce @ [p])"
      by (simp add: AddGeometry_def)
    with True have "\<not> IsEmpty ce1" by simp
    with Cons.IH [OF rest] show ?thesis by simp
  qed
qed

lemma fix_geometry_kept:
  assumes "fix_geometry eng t go c = Inr (Some g', c')"
  shows "IsValid eng g' \<and> \<not> IsEmpty g'"
proof -
  have ne: "\<not> IsEmpty ce" if "extract_parts eng parts (new_Geometry t) False = Inr (ce, True)"
    for parts ce
    using extract_parts_nonempty [OF that] by simp
  from assms show ?thesis
    unfolding fix_geometry_def Let_def
    by (auto split: option.splits if_splits sum.splits prod.splits bool.splits dest: ne)
qed

lemma fix_geometry_geom:
  "fix_geometry eng t go c = Inr (fg, c') \<Longrightarrow> \<exists>c1. fix_geometry eng t go c0 = Inr (fg, c1)"
  unfolding fix_geometry_def Let_def
  by (auto split: option.splits if_splits sum.splits prod.splits)

lemma fix_geometry_final_geom:
  "fix_geometry eng t go c = Inr (fg, c') \<Longrightarrow> final_geom eng t go = fg"
  using fix_geometry_geom [of eng t go c fg c'
      "\<lparr>invalid_count = 0, repaired_count = 0, discarded_count = 0\<rparr>"]
  by (auto simp: final_geom_def)

lemma fix_loop_geoms:
  "fix_loop eng t defn rs acc c = Inr (ds, c') \<Longrightarrow>
     (\<exists>new. ds = acc @ new
        \<and> map geom new = map Some (List.map_filter (\<lambda>r. final_geom eng t (GetGeometryRef (snd r))) rs)
        \<and> (\<forall>d \<in> set new. addable d \<and> (\<exists>g. geom d = Some g \<and> IsValid eng g)))"
proof (induction rs arbitrary: acc c)
  case Nil
  then show ?case by (simp add: List.map_filter_simps)
next
  case (Cons r rs)
  obtain fid f where r: "r = (fid, f)" by (cases r)
  from Cons.prems obtain fg c1 where fg: "fix_geometry eng t (GetGeometryRef f) c = Inr (fg, c1)"
    by (auto simp: r split: sum.splits)
  note fin = fix_geometry_final_geom [OF fg]
  show ?case
  proof (cases fg)
    case None
    with Cons.prems fg have "fix_loop eng t defn rs acc c1 = Inr (ds, c')"
      by (simp add: r)
    from Cons.IH [OF this] fin None show ?thesis
      by (simp add: r List.map_filter_simps)
  next
    case (Some g)
    let ?d = "\<lparr>geom = Some g, attributes = read_attrs defn f\<rparr>"
    from fix_geometry_kept [OF fg [unfolded Some]] have ok: "IsValid eng g" "\<not> IsEmpty g"
      by simp_all
    from Some Cons.prems fg have "fix_loop eng t defn rs (acc @ [?d]) c1 = Inr (ds, c')"
      by (simp add: r)
    from Cons.IH [OF this] obtain new where n: "ds = (acc @ [?d]) @ new"
      "map geom new = map Some (List.map_filter (\<lambda>r. final_geom eng t (GetGeometryRef (snd r))) rs)"
      "\<forall>d \<in> set new. addable d \<and> (\<exists>g. geom d = Some g \<and> IsValid eng g)"
      by blast
    with fin Some ok have "ds = acc @ (?d # new)"
      "map geom (?d # new) = map Some (List.map_filter (\<lambda>r. final_geom eng t (GetGeometryRef (snd r))) (r # rs))"
      "\<forall>d \<in> set (?d # new). addable d \<and> (\<exists>g. geom d = Some g \<and> IsValid eng g)"
      by (simp_all add: r List.map_filter_simps addable_def)
    then show ?thesis by blast
  qed
qed

lemma fix_layer_geometries_success:
  assumes "fix_layer_geometries eng l = Inr (True, l', c)"
  shows "map (GetGeometryRef \<circ> snd) (rows l') =
           map Some (List.map_filter
                       (\<lambda>r. final_geom eng (GetGeomType l) (GetGeometryRef (snd r))) (rows l))
         \<and> (\<forall>r \<in> set (rows l'). \<exists>g. GetGeometryRef (snd r) = Some g \<and> IsValid eng g)"
proof (cases "rows l = []")
  case True
  with assms show ?thesis
    by (auto simp: fix_layer_geometries_def GetFeatureCount_def Let_def List.map_filter_simps)
next
  case False
  with assms obtain ds where fl: "fix_loop eng (GetGeomType l) (GetLayerDefn l) (rows l) []
        \<lparr>invalid_count = 0, repaired_count = 0, discarded_count = 0\<rparr> = Inr (ds, c)"
    and r: "ret (clear_and_repopulate_layer eng l ds)"
    and l': "l' = lyr (clear_and_repopulate_layer eng l ds)"
    by (auto simp: fix_layer_geometries_def GetFeatureCount_def Let_def split: sum.splits)
  from fix_loop_geoms [OF fl] have g: "map geom ds = map Some (List.map_filter
          (\<lambda>r. final_geom eng (GetGeomType l) (GetGeometryRef (snd r))) (rows l))"
    and a: "\<forall>d \<in> set ds. addable d \<and> (\<exists>g. geom d = Some g \<and> IsValid eng g)"
    by auto
  from a have fa: "filter addable ds = ds" by (simp add: filter_id_conv)
  from crl_success_rows [OF r] False fa
  have rw: "map snd (rows l') = map (built eng (GetLayerDefn l)) ds"
    by (simp add: l')
  have "map (GetGeometryRef \<circ> snd) (rows l') = map GetGeometryRef (map snd (rows l'))"
    by simp
  also have "\<dots> = map geom ds"
    by (simp add: rw built_geometry comp_def)
  finally have first: "map (GetGeometryRef \<circ> snd) (rows l') = map geom ds" .
  have "\<forall>x \<in> set (map (GetGeometryRef \<circ> snd) (rows l')). \<exists>g. x = Some g \<and> IsValid eng g"
    unfolding first using a by auto
  then have second: "\<forall>r \<in> set (rows l'). \<exists>g. GetGeometryRef (snd r) = Some g \<and> IsValid eng g"
    by auto
  from first g second show ?thesis by simp
qed

lemma final_geom_valid_kept:
  "\<not> IsEmpty g \<Longrightarrow> IsValid eng g \<Longrightarrow> final_geom eng t (Some g) = Some g"
  by (simp add: final_geom_def fix_geometry_def)

lemma final_geom_repaired:
  assumes "\<not> IsValid eng g" and "final_geom eng t (Some g) = Some g'"
  shows "IsValid eng g' \<and>
         (\<exists>rg. MakeValid eng g = Inr (Some rg)
            \<and> (g' = rg
                \<or> (GT_Flatten (GetGeometryType rg) = wkbGeometryCollection
                    \<and> extract_parts eng (GetGeometries rg) (new_Geometry t) False = Inr (g', True))))"
proof -
  from assms(2) obtain c1 where fg: "fix_geometry eng t (Some g)
      \<lparr>invalid_count = 0, repaired_count = 0, discarded_count = 0\<rparr> = Inr (Some g', c1)"
    by (auto simp: final_geom_def split: sum.splits)
  from fix_geometry_kept [OF fg] have v: "IsValid eng g'" by simp
  from fg assms(1) have "\<exists>rg. MakeValid eng g = Inr (Some rg)
            \<and> (g' = rg
                \<or> (GT_Flatten (GetGeometryType rg) = wkbGeometryCollection
                    \<and> extract_parts eng (GetGeometries rg) (new_Geometry t) False = Inr (g', True)))"
    unfolding fix_geometry_def Let_def
    by (auto split: option.splits if_splits sum.splits prod.splits)
  with v show ?thesis by simp
qed









subsection \<open>Geometry repair\<close>

text \<open>
  C2: when \<^verbatim>\<open>fix_layer_geometries\<close> returns success, every feature of the layer has a
  geometry and the engine finds it valid; the geometries of the layer are, in order, the
  \<open>final_geom\<close> of the features that have one (a feature without one is discarded). A
  geometry that is not empty and valid is kept as it is; an invalid geometry is kept only as
  the valid result of its repair, or as the valid geometry assembled from the members of the
  repair's collection.
\<close>

theorem fix_layer_geometries_leaves_valid:
  "(fix_layer_geometries eng l = Inr (True, l', c) \<longrightarrow>
      (\<forall>r \<in> set (rows l'). \<exists>g. GetGeometryRef (snd r) = Some g \<and> IsValid eng g)
      \<and> map (GetGeometryRef \<circ> snd) (rows l') =
          map Some (List.map_filter
                      (\<lambda>r. final_geom eng (GetGeomType l) (GetGeometryRef (snd r))) (rows l)))
   \<and> (\<not> IsEmpty g \<and> IsValid eng g \<longrightarrow> final_geom eng t (Some g) = Some g)
   \<and> (\<not> IsValid eng g \<and> final_geom eng t (Some g) = Some g' \<longrightarrow>
        IsValid eng g'
        \<and> (\<exists>rg. MakeValid eng g = Inr (Some rg)
              \<and> (g' = rg
                  \<or> (GT_Flatten (GetGeometryType rg) = wkbGeometryCollection
                      \<and> extract_parts eng (GetGeometries rg) (new_Geometry t) False
                          = Inr (g', True)))))"
  using fix_layer_geometries_success [of eng l l' c] final_geom_valid_kept [of g eng t]
    final_geom_repaired [of eng g t g']
  by blast

text \<open>
  C2 on a layer of a self-intersecting polygon and a square: both features remain, the first
  with the polygon extracted from its repair, the second as it was.
\<close>

theorem fix_layer_geometries_leaves_valid_witness:
  "fix_layer_geometries bowtie_engine bowtie_layer =
     Inr (True, fixed_bowtie_layer,
          \<lparr>invalid_count = 1, repaired_count = 1, discarded_count = 0\<rparr>)
   \<and> map (GetGeometryRef \<circ> snd) (rows fixed_bowtie_layer) =
       [Some (Geometry (wkbMultiPolygon, False) [] [bowtie_triangle]), Some square_polygon]
   \<and> IsValid bowtie_engine (Geometry (wkbMultiPolygon, False) [] [bowtie_triangle])
   \<and> IsValid bowtie_engine square_polygon
   \<and> \<not> IsEmpty square_polygon
   \<and> final_geom bowtie_engine (wkbMultiPolygon, False) (Some square_polygon) = Some square_polygon
   \<and> \<not> IsValid bowtie_engine bowtie
   \<and> final_geom bowtie_engine (wkbMultiPolygon, False) (Some bowtie)
       = Some (Geometry (wkbMultiPolygon, False) [] [bowtie_triangle])
   \<and> MakeValid bowtie_engine bowtie = Inr (Some bowtie_repaired)"
proof -
  have run: "fix_layer_geometries bowtie_engine bowtie_layer =
     Inr (True, fixed_bowtie_layer,
          \<lparr>invalid_count = 1, repaired_count = 1, discarded_count = 0\<rparr>)"
    by code_simp
  have sq: "\<not> IsEmpty square_polygon \<and> IsValid bowtie_engine square_polygon"
    by code_simp
  have bt: "\<not> IsValid bowtie_engine bowtie
      \<and> final_geom bowtie_engine (wkbMultiPolygon, False) (Some bowtie)
          = Some (Geometry (wkbMultiPolygon, False) [] [bowtie_triangle])
      \<and> MakeValid bowtie_engine bowtie = Inr (Some bowtie_repaired)"
    by code_simp
  have t: "IsValid bowtie_engine (Geometry (wkbMultiPolygon, False) [] [bowtie_triangle])"
    by code_simp
  have gs: "map (GetGeometryRef \<circ> snd) (rows fixed_bowtie_layer) =
       [Some (Geometry (wkbMultiPolygon, False) [] [bowtie_triangle]), Some square_polygon]"
    by (simp add: fixed_bowtie_layer_def)
  from fix_layer_geometries_leaves_valid
         [of bowtie_engine bowtie_layer fixed_bowtie_layer
             "\<lparr>invalid_count = 1, repaired_count = 1, discarded_count = 0\<rparr>"
             square_polygon "(wkbMultiPolygon, False)"]
       run sq
  have "final_geom bowtie_engine (wkbMultiPolygon, False) (Some square_polygon) = Some square_polygon"
    by blast
  with run sq bt t gs show ?thesis by simp
qed



subsection \<open>Classification by \<open>DN\<close>\<close>




subsection \<open>The attributes of the features a stage keeps\<close>




subsection \<open>Validation of the input rasters\<close>








subsection \<open>Empty extraction\<close>


lemma sum_list_thresholded_zero_iff:
  "sum_list (thresholded_array thr band_array) = 0 \<longleftrightarrow> (\<forall>v \<in> set band_array. v < thr)"
  by (induction band_array) (auto simp: thresholded_array_def)






















end
